theory Spec2Isabelle
  imports Complex_Main "HOL-Library.Multiset" "HOL-Library.Product_Lexorder"
begin

section \<open>Values of the analysis script\<close>

text \<open>
  A Python float is one of the finite values, the two infinities or NaN. A finite float
  is modelled by the real number it denotes; the rounding of arithmetic results to the
  nearest double is not modelled.
\<close>

datatype pyfloat = Fin real | PInf | NInf | NaN

text \<open>The exceptions that the script's own operations or the data provider can raise.\<close>

datatype exn =
    ValueError
  | TypeError
  | IndexError
  | KeyError string
  | ZeroDivisionError
  | ProviderError string

text \<open>
  The content of one cell of a provider frame: a float64 number, a string, None, or some
  other object that has no conversion to float. A value handed to the extraction is
  such a cell or a pandas Series of cells.
\<close>

datatype scalar = SFloat pyfloat | SStr string | SNone | SObject

datatype pyval = Scalar scalar | Series "scalar list"

text \<open>The growth figure is either a float or the int literal of the else branch.\<close>

datatype number = PyInt int | PyFloat pyfloat

type_synonym 'a result = "exn + 'a"

definition exn_bind :: "'a result \<Rightarrow> ('a \<Rightarrow> 'b result) \<Rightarrow> 'b result" where
  "exn_bind m f = (case m of Inl e \<Rightarrow> Inl e | Inr x \<Rightarrow> f x)"

subsection \<open>Float arithmetic and comparison\<close>

fun fneg :: "pyfloat \<Rightarrow> pyfloat" where
  "fneg (Fin x) = Fin (- x)"
| "fneg PInf = NInf"
| "fneg NInf = PInf"
| "fneg NaN = NaN"

fun fadd :: "pyfloat \<Rightarrow> pyfloat \<Rightarrow> pyfloat" where
  "fadd NaN _ = NaN"
| "fadd _ NaN = NaN"
| "fadd PInf NInf = NaN"
| "fadd NInf PInf = NaN"
| "fadd PInf _ = PInf"
| "fadd _ PInf = PInf"
| "fadd NInf _ = NInf"
| "fadd _ NInf = NInf"
| "fadd (Fin x) (Fin y) = Fin (x + y)"

definition fsub :: "pyfloat \<Rightarrow> pyfloat \<Rightarrow> pyfloat" where
  "fsub a b = fadd a (fneg b)"

definition signed_inf :: "real \<Rightarrow> pyfloat" where
  "signed_inf x = (if x = 0 then NaN else if 0 < x then PInf else NInf)"

fun fmul :: "pyfloat \<Rightarrow> pyfloat \<Rightarrow> pyfloat" where
  "fmul NaN _ = NaN"
| "fmul _ NaN = NaN"
| "fmul PInf PInf = PInf"
| "fmul PInf NInf = NInf"
| "fmul NInf PInf = NInf"
| "fmul NInf NInf = PInf"
| "fmul PInf (Fin y) = signed_inf y"
| "fmul NInf (Fin y) = signed_inf (- y)"
| "fmul (Fin x) PInf = signed_inf x"
| "fmul (Fin x) NInf = signed_inf (- x)"
| "fmul (Fin x) (Fin y) = Fin (x * y)"

text \<open>Python's float division raises on a zero divisor, whatever the dividend.\<close>

fun fdiv :: "pyfloat \<Rightarrow> pyfloat \<Rightarrow> pyfloat result" where
  "fdiv a (Fin y) =
     (if y = 0 then Inl ZeroDivisionError
      else Inr (case a of
                  Fin x \<Rightarrow> Fin (x / y)
                | PInf \<Rightarrow> signed_inf y
                | NInf \<Rightarrow> signed_inf (- y)
                | NaN \<Rightarrow> NaN))"
| "fdiv NaN _ = Inr NaN"
| "fdiv _ NaN = Inr NaN"
| "fdiv (Fin x) _ = Inr (Fin 0)"
| "fdiv _ _ = Inr NaN"

fun flt :: "pyfloat \<Rightarrow> pyfloat \<Rightarrow> bool" where
  "flt NaN _ = False"
| "flt _ NaN = False"
| "flt _ NInf = False"
| "flt NInf _ = True"
| "flt PInf _ = False"
| "flt (Fin x) PInf = True"
| "flt (Fin x) (Fin y) = (x < y)"

definition fgt :: "pyfloat \<Rightarrow> pyfloat \<Rightarrow> bool" where
  "fgt a b = flt b a"

definition feq :: "pyfloat \<Rightarrow> pyfloat \<Rightarrow> bool" where
  "feq a b = (a \<noteq> NaN \<and> a = b)"

definition fge :: "pyfloat \<Rightarrow> pyfloat \<Rightarrow> bool" where
  "fge a b = (fgt a b \<or> feq a b)"

definition isnan :: "pyfloat \<Rightarrow> bool" where
  "isnan a = (a = NaN)"

section \<open>The rows of the result and the library the script calls\<close>

record row =
  Ticker :: string
  Mirsky_Ratio :: pyfloat
  Market_Growth_1Y_Percent :: number
  RnD :: pyfloat
  SGA :: pyfloat

text \<open>
  The library functions the script calls and that are no part of it, taken as
  parameters: the parser behind \<open>float(str)\<close> (None where it raises ValueError),
  \<open>DataFrame.sort_values(by='Mirsky_Ratio', ascending=False)\<close> and
  \<open>scipy.stats.pearsonr\<close>. The script leaves the \<open>kind\<close> of the sort at its
  default, quicksort, for which the library promises a sorted arrangement of the rows and
  no more (see \<open>sort_values_contract\<close> below).
\<close>

record pylib =
  float_of_str :: "string \<Rightarrow> pyfloat option"
  sort_values :: "row list \<Rightarrow> row list"
  pearsonr :: "pyfloat list \<Rightarrow> number list \<Rightarrow> pyfloat \<times> pyfloat"

section \<open>Scalar extraction\<close>

text \<open>Python's \<open>xs.iloc[i]\<close>: a negative position counts from the end.\<close>

definition iloc :: "'a list \<Rightarrow> int \<Rightarrow> 'a result" where
  "iloc xs i =
     (if 0 \<le> i \<and> i < int (length xs) then Inr (xs ! nat i)
      else if i < 0 \<and> - int (length xs) \<le> i then Inr (xs ! nat (int (length xs) + i))
      else Inl IndexError)"

fun py_float :: "pylib \<Rightarrow> scalar \<Rightarrow> pyfloat result" where
  "py_float L (SFloat x) = Inr x"
| "py_float L (SStr s) = (case float_of_str L s of None \<Rightarrow> Inl ValueError | Some x \<Rightarrow> Inr x)"
| "py_float L SNone = Inl TypeError"
| "py_float L SObject = Inl TypeError"

text \<open>The body of the try block of \<open>extract_scalar\<close>.\<close>

definition extract_scalar_try :: "pylib \<Rightarrow> pyval \<Rightarrow> pyfloat result" where
  "extract_scalar_try L v =
     exn_bind (case v of Series xs \<Rightarrow> iloc xs 0 | Scalar s \<Rightarrow> Inr s) (py_float L)"

text \<open>The handler catches ValueError, TypeError and IndexError, and nothing else.\<close>

definition extract_scalar :: "pylib \<Rightarrow> pyval \<Rightarrow> pyfloat result" where
  "extract_scalar L v =
     (case extract_scalar_try L v of
        Inl ValueError \<Rightarrow> Inr (Fin 0)
      | Inl TypeError \<Rightarrow> Inr (Fin 0)
      | Inl IndexError \<Rightarrow> Inr (Fin 0)
      | r \<Rightarrow> r)"

section \<open>The data provider\<close>

text \<open>
  \<open>stock.history(period="1y")\<close> gives a frame of which the script reads the number of
  rows and the column \<open>Close\<close>: a frame with that column is the list of its cells, a
  frame without it only has its number of rows.
\<close>

datatype history_df = Prices "pyval list" | No_Close nat

fun len :: "history_df \<Rightarrow> nat" where
  "len (Prices cs) = length cs"
| "len (No_Close n) = n"

fun getitem_Close :: "history_df \<Rightarrow> pyval list result" where
  "getitem_Close (Prices cs) = Inr cs"
| "getitem_Close (No_Close n) = Inl (KeyError ''Close'')"

text \<open>
  \<open>stock.financials\<close> gives a frame of which the script reads \<open>.empty\<close>, the
  membership of a label in \<open>.index\<close> and the row \<open>.loc[label]\<close>.
\<close>

record financials_df =
  empty :: bool
  index :: "string \<rightharpoonup> pyval"

definition loc :: "financials_df \<Rightarrow> string \<Rightarrow> pyval result" where
  "loc f label = (case index f label of None \<Rightarrow> Inl (KeyError label) | Some v \<Rightarrow> Inr v)"

text \<open>
  What the provider answers for one ticker: each of the two fetches returns a frame or
  raises an exception of the provider's, of which the script only prints the message.
\<close>

datatype 'a fetched = Raises string | Returns 'a

fun fetch :: "'a fetched \<Rightarrow> 'a result" where
  "fetch (Raises m) = Inl (ProviderError m)"
| "fetch (Returns x) = Inr x"

record response =
  history :: "history_df fetched"
  financials :: "financials_df fetched"

section \<open>The per-ticker pipeline\<close>

datatype skip_reason =
    Insufficient_price_data
  | Missing_required_financial_data
  | SGA_is_zero

datatype outcome = OK row | SKIPPED skip_reason | ERROR exn

definition market_growth :: "pyfloat \<Rightarrow> pyfloat \<Rightarrow> number result" where
  "market_growth start_price end_price =
     (if fgt start_price (Fin 0)
      then exn_bind (fdiv (fsub end_price start_price) start_price)
             (\<lambda>q. Inr (PyFloat (fmul q (Fin 100))))
      else Inr (PyInt 0))"

definition required_missing :: "financials_df \<Rightarrow> bool" where
  "required_missing f =
     (empty f \<or> index f ''Research And Development'' = None
      \<or> index f ''Selling General And Administration'' = None)"

text \<open>The statements of the try block, from the financial statement on.\<close>

definition from_financials ::
  "pylib \<Rightarrow> string \<Rightarrow> number \<Rightarrow> financials_df \<Rightarrow> outcome result" where
  "from_financials L ticker growth f =
     (if required_missing f then Inr (SKIPPED Missing_required_financial_data)
      else
        exn_bind (loc f ''Research And Development'') (\<lambda>v1.
        exn_bind (extract_scalar L v1) (\<lambda>rnd.
        exn_bind (loc f ''Selling General And Administration'') (\<lambda>v2.
        exn_bind (extract_scalar L v2) (\<lambda>sga.
          if feq sga (Fin 0) then Inr (SKIPPED SGA_is_zero)
          else
            exn_bind (fdiv rnd sga) (\<lambda>mirsky_ratio.
              Inr (OK \<lparr>Ticker = ticker, Mirsky_Ratio = mirsky_ratio,
                       Market_Growth_1Y_Percent = growth, RnD = rnd, SGA = sga\<rparr>)))))))"

text \<open>The whole try block for one ticker.\<close>

definition ticker_try :: "pylib \<Rightarrow> string \<Rightarrow> response \<Rightarrow> outcome result" where
  "ticker_try L ticker resp =
     exn_bind (fetch (history resp)) (\<lambda>hist.
       if len hist < 2 then Inr (SKIPPED Insufficient_price_data)
       else
         exn_bind (getitem_Close hist) (\<lambda>c0.
         exn_bind (iloc c0 0) (\<lambda>first.
         exn_bind (extract_scalar L first) (\<lambda>start_price.
         exn_bind (getitem_Close hist) (\<lambda>c1.
         exn_bind (iloc c1 (- 1)) (\<lambda>lst.
         exn_bind (extract_scalar L lst) (\<lambda>end_price.
         exn_bind (market_growth start_price end_price) (\<lambda>growth.
         exn_bind (fetch (financials resp)) (\<lambda>f.
           from_financials L ticker growth f)))))))))"

text \<open>\<open>except Exception\<close>: whatever the try block raises becomes an ERROR line.\<close>

definition process_ticker :: "pylib \<Rightarrow> string \<Rightarrow> response \<Rightarrow> outcome" where
  "process_ticker L ticker resp =
     (case ticker_try L ticker resp of Inl e \<Rightarrow> ERROR e | Inr out \<Rightarrow> out)"

section \<open>The run\<close>

datatype msg =
    Starting
  | Processing nat nat string
  | Ok_line
  | Skipped_line skip_reason
  | Error_line exn
  | No_data_collected
  | Saved string
  | Statistical_results nat pyfloat pyfloat
  | Insufficient_data

record run_output =
  console :: "msg list"
  csv_file :: "row list option"

definition sp100_tickers :: "string list" where
  "sp100_tickers =
    [''AAPL'', ''MSFT'', ''GOOG'', ''AMZN'', ''NVDA'', ''META'', ''TSLA'', ''BRK-B'', ''LLY'',
     ''V'', ''JPM'', ''XOM'', ''WMT'', ''UNH'', ''MA'', ''PG'', ''JNJ'', ''MRK'', ''HD'', ''COST'',
     ''AVGO'', ''ORCL'', ''CVX'', ''CRM'', ''PEP'', ''KO'', ''ABBV'', ''ADBE'', ''BAC'', ''MCD'',
     ''CSCO'', ''ACN'', ''TMO'', ''PFE'', ''LIN'', ''NFLX'', ''ABT'', ''AMD'', ''DIS'', ''WFC'',
     ''CMCSA'', ''INTC'', ''VZ'', ''DHR'', ''NEE'', ''PM'', ''UPS'', ''TXN'', ''RTX'', ''HON'',
     ''AMGN'', ''UNP'', ''LOW'', ''COP'', ''IBM'', ''PLD'', ''SPGI'', ''CAT'', ''GS'', ''SBUX'',
     ''DE'', ''BLK'', ''ISRG'', ''LMT'', ''GE'', ''MDLZ'', ''BA'', ''TJX'', ''T'', ''AXP'', ''AMT'',
     ''C'', ''NOW'', ''PYPL'', ''SCHW'', ''ZTS'', ''ADI'', ''CVS'', ''DUK'', ''EOG'', ''SO'',
     ''MMC'', ''PNC'', ''TGT'', ''BDX'', ''GILD'', ''MO'', ''USB'', ''ADP'', ''CI'', ''CSX'',
     ''FISV'', ''GM'', ''HCA'', ''ITW'', ''KMB'', ''MD'', ''MMM'', ''PGR'', ''SHW'', ''SYK'',
     ''ANTM'']"

text \<open>
  The loop over the tickers: the state is the console so far and the list
  \<open>results\<close>; \<open>i\<close> is the position \<open>enumerate\<close> gives.
\<close>

fun ticker_loop ::
  "pylib \<Rightarrow> (string \<Rightarrow> response) \<Rightarrow> nat \<Rightarrow> nat \<Rightarrow> string list
     \<Rightarrow> msg list \<times> row list \<Rightarrow> msg list \<times> row list" where
  "ticker_loop L provider total_tickers i [] st = st"
| "ticker_loop L provider total_tickers i (ticker # rest) (con, results) =
     (case process_ticker L ticker (provider ticker) of
        OK r \<Rightarrow>
          ticker_loop L provider total_tickers (Suc i) rest
            (con @ [Processing (i + 1) total_tickers ticker, Ok_line], results @ [r])
      | SKIPPED why \<Rightarrow>
          ticker_loop L provider total_tickers (Suc i) rest
            (con @ [Processing (i + 1) total_tickers ticker, Skipped_line why], results)
      | ERROR e \<Rightarrow>
          ticker_loop L provider total_tickers (Suc i) rest
            (con @ [Processing (i + 1) total_tickers ticker, Error_line e], results))"

text \<open>\<open>isna\<close> on the cells of a row, and \<open>DataFrame.dropna()\<close>.\<close>

fun number_isna :: "number \<Rightarrow> bool" where
  "number_isna (PyInt k) = False"
| "number_isna (PyFloat x) = isnan x"

definition has_na :: "row \<Rightarrow> bool" where
  "has_na r =
     (isnan (Mirsky_Ratio r) \<or> number_isna (Market_Growth_1Y_Percent r)
      \<or> isnan (RnD r) \<or> isnan (SGA r))"

definition dropna :: "row list \<Rightarrow> row list" where
  "dropna df = filter (\<lambda>r. \<not> has_na r) df"

text \<open>The final analysis, after the loop.\<close>

definition final_analysis :: "pylib \<Rightarrow> msg list \<Rightarrow> row list \<Rightarrow> run_output" where
  "final_analysis L con results =
     (if results = [] then \<lparr>console = con @ [No_data_collected], csv_file = None\<rparr>
      else
        let df = sort_values L (dropna results);
            output_filename = ''mirsky_ratio_results.csv''
        in \<lparr>console = con @ [Saved output_filename] @
               (if length df > 2
                then (case pearsonr L (map Mirsky_Ratio df) (map Market_Growth_1Y_Percent df) of
                        (correlation, p_value) \<Rightarrow>
                          [Statistical_results (length df) correlation p_value])
                else [Insufficient_data]),
            csv_file = Some df\<rparr>)"

definition run_on :: "pylib \<Rightarrow> (string \<Rightarrow> response) \<Rightarrow> string list \<Rightarrow> run_output" where
  "run_on L provider tickers =
     (case ticker_loop L provider (length tickers) 0 tickers ([Starting], []) of
        (con, results) \<Rightarrow> final_analysis L con results)"

text \<open>
  The script runs on its fixed list of tickers. The properties below are proved of
  \<open>run_on\<close> for every list, so they hold of \<open>run_analysis\<close>.
\<close>

definition run_analysis :: "pylib \<Rightarrow> (string \<Rightarrow> response) \<Rightarrow> run_output" where
  "run_analysis L provider = run_on L provider sp100_tickers"

section \<open>Auxiliary definitions\<close>

subsection \<open>Sorting by ratio\<close>

text \<open>
  The floats other than NaN are linearly ordered; \<open>frank\<close> maps them, in order, into
  the lexicographic order of pairs, so that the library's insertion sort can sort rows by
  their ratio. Two sorts into descending order: one keeps rows of equal ratio in the order
  they came in, the other reverses them. Both meet the contract of the library's sort:
  on rows without a NaN ratio, the result holds the same rows and is in descending order.
\<close>

definition frank :: "pyfloat \<Rightarrow> int \<times> real" where
  "frank a = (case a of NInf \<Rightarrow> (- 1, 0) | Fin x \<Rightarrow> (0, x) | PInf \<Rightarrow> (1, 0) | NaN \<Rightarrow> (2, 0))"

definition stable_sort_values :: "row list \<Rightarrow> row list" where
  "stable_sort_values df = rev (sort_key (\<lambda>r. frank (Mirsky_Ratio r)) (rev df))"

definition last_first_sort_values :: "row list \<Rightarrow> row list" where
  "last_first_sort_values df = rev (sort_key (\<lambda>r. frank (Mirsky_Ratio r)) df)"

definition sort_values_contract :: "pylib \<Rightarrow> bool" where
  "sort_values_contract L =
     (\<forall>df. (\<forall>r \<in> set df. \<not> isnan (Mirsky_Ratio r)) \<longrightarrow>
        mset (sort_values L df) = mset df \<and>
        sorted_wrt (\<lambda>a b. fge (Mirsky_Ratio a) (Mirsky_Ratio b)) (sort_values L df))"

subsection \<open>The loop in closed form\<close>

text \<open>
  What the loop appends to the console and to \<open>results\<close>, ticker by ticker
  (lemma \<open>ticker_loop_closed\<close>).
\<close>

fun outcome_line :: "outcome \<Rightarrow> msg" where
  "outcome_line (OK r) = Ok_line"
| "outcome_line (SKIPPED why) = Skipped_line why"
| "outcome_line (ERROR e) = Error_line e"

fun outcome_rows :: "outcome \<Rightarrow> row list" where
  "outcome_rows (OK r) = [r]"
| "outcome_rows (SKIPPED why) = []"
| "outcome_rows (ERROR e) = []"

fun progress :: "pylib \<Rightarrow> (string \<Rightarrow> response) \<Rightarrow> nat \<Rightarrow> nat \<Rightarrow> string list \<Rightarrow> msg list" where
  "progress L provider n i [] = []"
| "progress L provider n i (t # ts) =
     Processing (i + 1) n t # outcome_line (process_ticker L t (provider t))
       # progress L provider n (Suc i) ts"

definition accepted :: "pylib \<Rightarrow> (string \<Rightarrow> response) \<Rightarrow> string list \<Rightarrow> row list" where
  "accepted L provider ts = concat (map (\<lambda>t. outcome_rows (process_ticker L t (provider t))) ts)"

subsection \<open>Concrete libraries and provider answers\<close>

text \<open>
  Two instances of the library, which differ in the sort only, and a provider that
  answers for a few made-up tickers; the theorems are evaluated on them.
\<close>

definition sample_float_of_str :: "string \<Rightarrow> pyfloat option" where
  "sample_float_of_str s =
     (if s = ''nan'' then Some NaN else if s = ''0.5'' then Some (Fin (1 / 2)) else None)"

definition sample_pearsonr :: "pyfloat list \<Rightarrow> number list \<Rightarrow> pyfloat \<times> pyfloat" where
  "sample_pearsonr xs ys = (Fin 0, Fin 1)"

definition stable_lib :: pylib where
  "stable_lib = \<lparr>float_of_str = sample_float_of_str, sort_values = stable_sort_values,
     pearsonr = sample_pearsonr\<rparr>"

definition last_first_lib :: pylib where
  "last_first_lib = \<lparr>float_of_str = sample_float_of_str, sort_values = last_first_sort_values,
     pearsonr = sample_pearsonr\<rparr>"

definition statement :: "pyval \<Rightarrow> pyval \<Rightarrow> financials_df" where
  "statement rd sga =
     \<lparr>empty = False,
      index = [''Research And Development'' \<mapsto> rd,
               ''Selling General And Administration'' \<mapsto> sga]\<rparr>"

definition quotes :: "real list \<Rightarrow> history_df" where
  "quotes xs = Prices (map (\<lambda>x. Scalar (SFloat (Fin x))) xs)"

definition figure :: "real \<Rightarrow> pyval" where
  "figure x = Series [SFloat (Fin x), SFloat (Fin 0)]"

definition sample_provider :: "string \<Rightarrow> response" where
  "sample_provider t =
     (if t = ''AAA'' then
        \<lparr>history = Returns (quotes [100, 110, 120]),
         financials = Returns (statement (figure 50) (figure 200))\<rparr>
      else if t = ''BBB'' then
        \<lparr>history = Returns (quotes [10, 5]),
         financials = Returns (statement (figure 1) (figure 4))\<rparr>
      else if t = ''CCC'' then
        \<lparr>history = Returns (quotes [0, 7]),
         financials = Returns (statement (figure 1) (figure 2))\<rparr>
      else if t = ''DDD'' then
        \<lparr>history = Returns (quotes [4, 5]),
         financials = Returns (statement (figure 1) (figure 10))\<rparr>
      else if t = ''EEE'' then
        \<lparr>history = Returns (quotes [8, 6]),
         financials = Returns (statement (figure 3) (figure 10))\<rparr>
      else if t = ''NAN'' then
        \<lparr>history = Returns (quotes [1, 2]),
         financials = Returns (statement (Series [SFloat NaN]) (figure 3))\<rparr>
      else if t = ''SNAN'' then
        \<lparr>history = Returns (quotes [1, 2]),
         financials = Returns (statement (figure 1) (Series [SFloat NaN]))\<rparr>
      else if t = ''GRO'' then
        \<lparr>history = Returns (Prices [Scalar (SFloat (Fin 1)), Scalar (SFloat NaN)]),
         financials = Returns (statement (figure 1) (figure 2))\<rparr>
      else if t = ''BAD'' then
        \<lparr>history = Returns (Prices [Scalar SNone, Scalar (SFloat (Fin 3)), Scalar (SStr ''n/a'')]),
         financials = Returns (statement (figure 3) (figure 4))\<rparr>
      else if t = ''ONE'' then
        \<lparr>history = Returns (quotes [5]),
         financials = Returns (statement (figure 50) (figure 200))\<rparr>
      else if t = ''NORD'' then
        \<lparr>history = Returns (quotes [5, 6]),
         financials = Returns \<lparr>empty = False,
           index = [''Selling General And Administration'' \<mapsto> figure 200]\<rparr>\<rparr>
      else if t = ''ZERO'' then
        \<lparr>history = Returns (quotes [5, 6]),
         financials = Returns (statement (figure 50) (Series []))\<rparr>
      else
        \<lparr>history = Raises ''no data'', financials = Raises ''no data''\<rparr>)"

section \<open>Properties of the extraction and of the per-ticker pipeline\<close>

lemma extract_scalar_float: "extract_scalar L (Scalar (SFloat x)) = Inr x"
  by (simp add: extract_scalar_def extract_scalar_try_def exn_bind_def)

lemma extract_scalar_str:
  "extract_scalar L (Scalar (SStr s)) = Inr (case float_of_str L s of None \<Rightarrow> Fin 0 | Some x \<Rightarrow> x)"
  by (simp add: extract_scalar_def extract_scalar_try_def exn_bind_def split: option.splits)

lemma extract_scalar_none: "extract_scalar L (Scalar SNone) = Inr (Fin 0)"
  by (simp add: extract_scalar_def extract_scalar_try_def exn_bind_def)

lemma extract_scalar_object: "extract_scalar L (Scalar SObject) = Inr (Fin 0)"
  by (simp add: extract_scalar_def extract_scalar_try_def exn_bind_def)

lemma extract_scalar_nil: "extract_scalar L (Series []) = Inr (Fin 0)"
  by (simp add: extract_scalar_def extract_scalar_try_def exn_bind_def iloc_def)

lemma extract_scalar_cons: "extract_scalar L (Series (s # rest)) = extract_scalar L (Scalar s)"
  by (simp add: extract_scalar_def extract_scalar_try_def exn_bind_def iloc_def)

lemma extract_scalar_returns: "\<exists>y. extract_scalar L v = Inr y"
proof (cases v)
  case (Scalar s)
  then show ?thesis
    by (cases s)
      (simp_all add: extract_scalar_float extract_scalar_str extract_scalar_none
        extract_scalar_object)
next
  case (Series xs)
  show ?thesis
  proof (cases xs)
    case Nil
    with Series show ?thesis by (simp add: extract_scalar_nil)
  next
    case (Cons s rest)
    with Series show ?thesis
      by (cases s)
        (simp_all add: extract_scalar_cons extract_scalar_float extract_scalar_str
          extract_scalar_none extract_scalar_object)
  qed
qed

lemma fdiv_positive: "fgt s (Fin 0) \<Longrightarrow> \<exists>q. fdiv a s = Inr q"
  by (cases s; cases a) (auto simp: fgt_def)

lemma market_growth_returns: "\<exists>g. market_growth s e = Inr g"
  using fdiv_positive [of s "fsub e s"]
  by (auto simp: market_growth_def exn_bind_def)

lemma fdiv_nonzero: "sga \<noteq> Fin 0 \<Longrightarrow> \<exists>q. fdiv rnd sga = Inr q"
  by (cases sga; cases rnd) auto

lemma iloc_first: "xs \<noteq> [] \<Longrightarrow> iloc xs 0 = Inr (hd xs)"
  by (cases xs) (simp_all add: iloc_def)

lemma iloc_last: "xs \<noteq> [] \<Longrightarrow> iloc xs (- 1) = Inr (last xs)"
  by (cases xs rule: rev_cases) (simp_all add: iloc_def nat_diff_distrib' less_eq_Suc_le)

lemma feq_zero: "feq a (Fin 0) \<longleftrightarrow> a = Fin 0"
  by (auto simp: feq_def)

lemma from_financials_eq:
  assumes "\<not> required_missing f"
    and "index f ''Research And Development'' = Some v1"
    and "index f ''Selling General And Administration'' = Some v2"
    and "extract_scalar L v1 = Inr rnd" and "extract_scalar L v2 = Inr sga"
  shows "from_financials L t g f =
    (if sga = Fin 0 then Inr (SKIPPED SGA_is_zero)
     else exn_bind (fdiv rnd sga) (\<lambda>q. Inr (OK \<lparr>Ticker = t, Mirsky_Ratio = q,
            Market_Growth_1Y_Percent = g, RnD = rnd, SGA = sga\<rparr>)))"
  using assms by (simp add: from_financials_def loc_def exn_bind_def feq_zero)

lemma ticker_try_prices:
  assumes "2 \<le> length cs"
    and "extract_scalar L (hd cs) = Inr s" and "extract_scalar L (last cs) = Inr e"
    and "market_growth s e = Inr g"
  shows "ticker_try L t \<lparr>history = Returns (Prices cs), financials = fin\<rparr> =
    exn_bind (fetch fin) (from_financials L t g)"
proof -
  from assms(1) have ne: "cs \<noteq> []" by auto
  show ?thesis
    using assms by (simp add: ticker_try_def exn_bind_def iloc_first [OF ne] iloc_last [OF ne])
qed

lemma ticker_try_short:
  "len h < 2 \<Longrightarrow> ticker_try L t \<lparr>history = Returns h, financials = fin\<rparr> =
     Inr (SKIPPED Insufficient_price_data)"
  by (simp add: ticker_try_def exn_bind_def)

lemma process_ticker_accepted:
  assumes "process_ticker L t resp = OK r"
  shows "\<exists>cs f s e v1 v2.
      history resp = Returns (Prices cs) \<and> 2 \<le> length cs \<and>
      financials resp = Returns f \<and> \<not> required_missing f \<and>
      extract_scalar L (hd cs) = Inr s \<and> extract_scalar L (last cs) = Inr e \<and>
      market_growth s e = Inr (Market_Growth_1Y_Percent r) \<and>
      index f ''Research And Development'' = Some v1 \<and>
      index f ''Selling General And Administration'' = Some v2 \<and>
      extract_scalar L v1 = Inr (RnD r) \<and> extract_scalar L v2 = Inr (SGA r) \<and>
      SGA r \<noteq> Fin 0 \<and> fdiv (RnD r) (SGA r) = Inr (Mirsky_Ratio r) \<and> Ticker r = t"
proof -
  obtain h fin where resp: "resp = \<lparr>history = h, financials = fin\<rparr>"
    by (cases resp) auto
  show ?thesis
  proof (cases h)
    case (Raises m)
    with assms resp show ?thesis
      by (simp add: process_ticker_def ticker_try_def exn_bind_def)
  next
    case (Returns hd_frame)
    show ?thesis
    proof (cases "len hd_frame < 2")
      case True
      with assms resp Returns show ?thesis
        by (simp add: process_ticker_def ticker_try_short)
    next
      case long: False
      show ?thesis
      proof (cases hd_frame)
        case (No_Close n)
        with assms resp Returns long show ?thesis
          by (simp add: process_ticker_def ticker_try_def exn_bind_def)
      next
        case (Prices cs)
        with long have len2: "2 \<le> length cs" by simp
        obtain s where s: "extract_scalar L (hd cs) = Inr s"
          using extract_scalar_returns by blast
        obtain e where e: "extract_scalar L (last cs) = Inr e"
          using extract_scalar_returns by blast
        obtain g where g: "market_growth s e = Inr g"
          using market_growth_returns by blast
        have tt: "ticker_try L t resp = exn_bind (fetch fin) (from_financials L t g)"
          unfolding resp Returns Prices by (rule ticker_try_prices [OF len2 s e g])
        show ?thesis
        proof (cases fin)
          case (Raises m)
          with assms tt show ?thesis
            by (simp add: process_ticker_def exn_bind_def)
        next
          case fr: (Returns f)
          show ?thesis
          proof (cases "required_missing f")
            case True
            with assms tt fr show ?thesis
              by (simp add: process_ticker_def exn_bind_def from_financials_def)
          next
            case present: False
            then obtain v1 v2 where
              v1: "index f ''Research And Development'' = Some v1" and
              v2: "index f ''Selling General And Administration'' = Some v2"
              by (auto simp: required_missing_def)
            obtain rnd where rnd: "extract_scalar L v1 = Inr rnd"
              using extract_scalar_returns by blast
            obtain sga where sga: "extract_scalar L v2 = Inr sga"
              using extract_scalar_returns by blast
            note ff = from_financials_eq [OF present v1 v2 rnd sga, of t g]
            show ?thesis
            proof (cases "sga = Fin 0")
              case True
              with assms tt fr ff show ?thesis
                by (simp add: process_ticker_def exn_bind_def)
            next
              case nz: False
              then obtain q where q: "fdiv rnd sga = Inr q"
                using fdiv_nonzero by blast
              from assms tt fr ff nz q
              have r: "r = \<lparr>Ticker = t, Mirsky_Ratio = q, Market_Growth_1Y_Percent = g,
                            RnD = rnd, SGA = sga\<rparr>"
                by (simp add: process_ticker_def exn_bind_def)
              show ?thesis
                using resp Returns Prices len2 fr present s e g v1 v2 rnd sga nz q
                by (simp add: r)
            qed
          qed
        qed
      qed
    qed
  qed
qed

lemma ticker_loop_closed:
  "ticker_loop L P n i ts (con, res) = (con @ progress L P n i ts, res @ accepted L P ts)"
  by (induction ts arbitrary: i con res) (auto simp: accepted_def split: outcome.splits)

lemma accepted_append: "accepted L P (xs @ ys) = accepted L P xs @ accepted L P ys"
  by (simp add: accepted_def)

lemma accepted_empty_iff:
  "accepted L P ts = [] \<longleftrightarrow> (\<forall>t \<in> set ts. \<forall>r. process_ticker L t (P t) \<noteq> OK r)"
proof -
  have one: "outcome_rows out = [] \<longleftrightarrow> (\<forall>r. out \<noteq> OK r)" for out
    by (cases out) simp_all
  show ?thesis by (simp add: accepted_def one)
qed

lemma progress_no_report:
  "m \<in> set (progress L P n i ts) \<Longrightarrow>
     m \<noteq> No_data_collected \<and> m \<noteq> Insufficient_data \<and> m \<noteq> Saved f \<and> m \<noteq> Statistical_results k c p"
  by (induction ts arbitrary: i) (auto elim: outcome_line.elims)

lemma dropna_no_nan: "r \<in> set (dropna df) \<Longrightarrow> \<not> isnan (Mirsky_Ratio r)"
  by (simp add: dropna_def has_na_def)

lemma contract_mset:
  "sort_values_contract L \<Longrightarrow> mset (sort_values L (dropna df)) = mset (dropna df)"
  unfolding sort_values_contract_def using dropna_no_nan by blast


lemma contract_length:
  "sort_values_contract L \<Longrightarrow> length (sort_values L (dropna df)) = length (dropna df)"
  using contract_mset [of L df] by (metis size_mset)

lemma contract_set:
  "sort_values_contract L \<Longrightarrow> set (sort_values L (dropna df)) = set (dropna df)"
  using contract_mset [of L df] by (metis set_mset_mset)

lemma fge_frank: "a \<noteq> NaN \<Longrightarrow> b \<noteq> NaN \<Longrightarrow> fge a b \<longleftrightarrow> frank b \<le> frank a"
  by (cases a; cases b) (auto simp: fge_def fgt_def feq_def frank_def)

lemma sorted_wrt_desc:
  assumes "\<forall>r \<in> set xs. Mirsky_Ratio r \<noteq> NaN" "sorted (map (\<lambda>r. frank (Mirsky_Ratio r)) xs)"
  shows "sorted_wrt (\<lambda>a b. fge (Mirsky_Ratio a) (Mirsky_Ratio b)) (rev xs)"
  using assms
  by (induction xs) (auto simp: sorted_wrt_append fge_frank)

lemma stable_lib_contract: "sort_values_contract stable_lib"
  unfolding sort_values_contract_def stable_lib_def stable_sort_values_def
  by (auto simp: isnan_def intro!: sorted_wrt_desc)


lemma from_financials_returns:
  "(\<exists>why. from_financials L t g f = Inr (SKIPPED why)) \<or>
   (\<exists>r. from_financials L t g f = Inr (OK r))"
proof (cases "required_missing f")
  case True
  then show ?thesis by (simp add: from_financials_def)
next
  case present: False
  then obtain v1 v2 where
    v1: "index f ''Research And Development'' = Some v1" and
    v2: "index f ''Selling General And Administration'' = Some v2"
    by (auto simp: required_missing_def)
  obtain rnd where rnd: "extract_scalar L v1 = Inr rnd"
    using extract_scalar_returns by blast
  obtain sga where sga: "extract_scalar L v2 = Inr sga"
    using extract_scalar_returns by blast
  note ff = from_financials_eq [OF present v1 v2 rnd sga, of t g]
  show ?thesis
  proof (cases "sga = Fin 0")
    case True
    with ff show ?thesis by simp
  next
    case False
    then obtain q where "fdiv rnd sga = Inr q"
      using fdiv_nonzero by blast
    with ff False show ?thesis by (simp add: exn_bind_def)
  qed
qed

lemma ticker_try_cases:
  "(\<exists>m. ticker_try L t resp = Inl (ProviderError m)) \<or>
   ticker_try L t resp = Inl (KeyError ''Close'') \<or>
   (\<exists>why. ticker_try L t resp = Inr (SKIPPED why)) \<or>
   (\<exists>r. ticker_try L t resp = Inr (OK r))"
proof -
  obtain h fin where resp: "resp = \<lparr>history = h, financials = fin\<rparr>"
    by (cases resp) auto
  show ?thesis
  proof (cases h)
    case (Raises m)
    with resp show ?thesis
      by (simp add: ticker_try_def exn_bind_def)
  next
    case (Returns frame)
    show ?thesis
    proof (cases "len frame < 2")
      case True
      with resp Returns show ?thesis
        by (simp add: ticker_try_short)
    next
      case long: False
      show ?thesis
      proof (cases frame)
        case (No_Close n)
        with resp Returns long show ?thesis
          by (simp add: ticker_try_def exn_bind_def)
      next
        case (Prices cs)
        with long have len2: "2 \<le> length cs" by simp
        obtain s where s: "extract_scalar L (hd cs) = Inr s"
          using extract_scalar_returns by blast
        obtain e where e: "extract_scalar L (last cs) = Inr e"
          using extract_scalar_returns by blast
        obtain g where g: "market_growth s e = Inr g"
          using market_growth_returns by blast
        have tt: "ticker_try L t resp = exn_bind (fetch fin) (from_financials L t g)"
          unfolding resp Returns Prices by (rule ticker_try_prices [OF len2 s e g])
        show ?thesis
        proof (cases fin)
          case (Raises m)
          with tt show ?thesis by (simp add: exn_bind_def)
        next
          case fr: (Returns f)
          with tt from_financials_returns [of L t g f] show ?thesis
            by (auto simp: exn_bind_def)
        qed
      qed
    qed
  qed
qed

lemma ticker_try_raises:
  assumes "ticker_try L t resp = Inl e"
  shows "(\<exists>m. e = ProviderError m) \<or> e = KeyError ''Close''"
  using ticker_try_cases [of L t resp] assms by auto

lemma ticker_try_no_error_value: "ticker_try L t resp \<noteq> Inr (ERROR e)"
  using ticker_try_cases [of L t resp] by auto

lemmas sample_defs = sample_provider_def statement_def quotes_def figure_def
  stable_lib_def last_first_lib_def sample_float_of_str_def sample_pearsonr_def

lemmas run_defs = process_ticker_def ticker_try_def from_financials_def market_growth_def
  required_missing_def loc_def exn_bind_def iloc_def extract_scalar_def extract_scalar_try_def
  fgt_def feq_def fsub_def


lemma process_ticker_prices:
  assumes "2 \<le> length cs"
  shows "\<exists>g. process_ticker L t \<lparr>history = Returns (Prices cs), financials = Returns f\<rparr> =
    (case from_financials L t g f of Inl e \<Rightarrow> ERROR e | Inr out \<Rightarrow> out)"
proof -
  obtain s where s: "extract_scalar L (hd cs) = Inr s"
    using extract_scalar_returns by blast
  obtain e where e: "extract_scalar L (last cs) = Inr e"
    using extract_scalar_returns by blast
  obtain g where g: "market_growth s e = Inr g"
    using market_growth_returns by blast
  show ?thesis
    using ticker_try_prices [OF assms s e g, of t "Returns f"]
    by (auto simp: process_ticker_def exn_bind_def)
qed


lemma process_ticker_sga:
  assumes "2 \<le> length cs" and "\<not> required_missing f"
    and "index f ''Selling General And Administration'' = Some v2"
  shows "(extract_scalar L v2 = Inr (Fin 0) \<longrightarrow>
           process_ticker L t \<lparr>history = Returns (Prices cs), financials = Returns f\<rparr> =
             SKIPPED SGA_is_zero) \<and>
         (extract_scalar L v2 \<noteq> Inr (Fin 0) \<longrightarrow>
           (\<exists>r. process_ticker L t \<lparr>history = Returns (Prices cs), financials = Returns f\<rparr> =
             OK r))"
proof -
  from assms(2) obtain v1 where v1: "index f ''Research And Development'' = Some v1"
    by (auto simp: required_missing_def)
  obtain rnd where rnd: "extract_scalar L v1 = Inr rnd"
    using extract_scalar_returns by blast
  obtain sga where sga: "extract_scalar L v2 = Inr sga"
    using extract_scalar_returns by blast
  obtain g where g: "process_ticker L t \<lparr>history = Returns (Prices cs), financials = Returns f\<rparr> =
    (case from_financials L t g f of Inl e \<Rightarrow> ERROR e | Inr out \<Rightarrow> out)"
    using process_ticker_prices [OF assms(1)] by blast
  note ff = from_financials_eq [OF assms(2) v1 assms(3) rnd sga, of t g]
  show ?thesis
  proof (cases "sga = Fin 0")
    case True
    with g ff sga show ?thesis by simp
  next
    case False
    then obtain q where "fdiv rnd sga = Inr q"
      using fdiv_nonzero by blast
    with g ff sga False show ?thesis by (simp add: exn_bind_def)
  qed
qed

lemma sample_AAA: "process_ticker L ''AAA'' (sample_provider ''AAA'') =
   OK \<lparr>Ticker = ''AAA'', Mirsky_Ratio = Fin (1 / 4), Market_Growth_1Y_Percent = PyFloat (Fin 20),
       RnD = Fin 50, SGA = Fin 200\<rparr>"
  by (simp add: sample_defs run_defs)

lemma sample_BBB: "process_ticker L ''BBB'' (sample_provider ''BBB'') =
   OK \<lparr>Ticker = ''BBB'', Mirsky_Ratio = Fin (1 / 4), Market_Growth_1Y_Percent = PyFloat (Fin (- 50)),
       RnD = Fin 1, SGA = Fin 4\<rparr>"
  by (simp add: sample_defs run_defs)

lemma sample_CCC: "process_ticker L ''CCC'' (sample_provider ''CCC'') =
   OK \<lparr>Ticker = ''CCC'', Mirsky_Ratio = Fin (1 / 2), Market_Growth_1Y_Percent = PyInt 0,
       RnD = Fin 1, SGA = Fin 2\<rparr>"
  by (simp add: sample_defs run_defs)

lemma sample_DDD: "process_ticker L ''DDD'' (sample_provider ''DDD'') =
   OK \<lparr>Ticker = ''DDD'', Mirsky_Ratio = Fin (1 / 10), Market_Growth_1Y_Percent = PyFloat (Fin 25),
       RnD = Fin 1, SGA = Fin 10\<rparr>"
  by (simp add: sample_defs run_defs)

lemma sample_EEE: "process_ticker L ''EEE'' (sample_provider ''EEE'') =
   OK \<lparr>Ticker = ''EEE'', Mirsky_Ratio = Fin (3 / 10), Market_Growth_1Y_Percent = PyFloat (Fin (- 25)),
       RnD = Fin 3, SGA = Fin 10\<rparr>"
  by (simp add: sample_defs run_defs)

lemma sample_NAN: "process_ticker L ''NAN'' (sample_provider ''NAN'') =
   OK \<lparr>Ticker = ''NAN'', Mirsky_Ratio = NaN, Market_Growth_1Y_Percent = PyFloat (Fin 100),
       RnD = NaN, SGA = Fin 3\<rparr>"
  by (simp add: sample_defs run_defs)

lemma sample_BAD: "process_ticker stable_lib ''BAD'' (sample_provider ''BAD'') =
   OK \<lparr>Ticker = ''BAD'', Mirsky_Ratio = Fin (3 / 4), Market_Growth_1Y_Percent = PyInt 0,
       RnD = Fin 3, SGA = Fin 4\<rparr>"
  by (simp add: sample_defs run_defs)

lemma sample_ONE: "process_ticker L ''ONE'' (sample_provider ''ONE'') = SKIPPED Insufficient_price_data"
  by (simp add: sample_defs run_defs)

lemma sample_NORD: "process_ticker L ''NORD'' (sample_provider ''NORD'') =
    SKIPPED Missing_required_financial_data"
  by (simp add: sample_defs run_defs)

lemma sample_ZERO: "process_ticker L ''ZERO'' (sample_provider ''ZERO'') = SKIPPED SGA_is_zero"
  by (simp add: sample_defs run_defs)

lemma sample_XYZ: "ticker_try L ''XYZ'' (sample_provider ''XYZ'') = Inl (ProviderError ''no data'')"
  by (simp add: sample_defs run_defs)

lemmas sample_outcomes = sample_AAA sample_BBB sample_CCC sample_DDD sample_EEE sample_NAN
  sample_BAD sample_ONE sample_NORD sample_ZERO




lemma sample_XYZ_outcome:
  "process_ticker L ''XYZ'' (sample_provider ''XYZ'') = ERROR (ProviderError ''no data'')"
  by (simp add: process_ticker_def sample_XYZ)

lemma run_on_eq:
  "run_on L P ts =
     final_analysis L ([Starting] @ progress L P (length ts) 0 ts) (accepted L P ts)"
  by (simp add: run_on_def ticker_loop_closed)

lemma progress_length: "length (progress L P n i ts) = 2 * length ts"
  by (induction ts arbitrary: i) simp_all

lemma progress_Processing:
  "k < length ts \<Longrightarrow> Processing (i + k + 1) n (ts ! k) \<in> set (progress L P n i ts)"
proof (induction ts arbitrary: i k)
  case Nil
  then show ?case by simp
next
  case (Cons t ts)
  show ?case
  proof (cases k)
    case 0
    then show ?thesis by simp
  next
    case (Suc k')
    with Cons.prems have "k' < length ts" by simp
    from Cons.IH [OF this, of "Suc i"] Suc show ?thesis by simp
  qed
qed

lemma progress_outcome:
  "t \<in> set ts \<Longrightarrow> outcome_line (process_ticker L t (P t)) \<in> set (progress L P n i ts)"
  by (induction ts arbitrary: i) auto

lemma progress_lines:
  "m \<in> set (progress L P n i ts) \<Longrightarrow>
     (\<exists>k t. m = Processing k n t) \<or> m = Ok_line \<or> (\<exists>why. m = Skipped_line why)
     \<or> (\<exists>e. m = Error_line e)"
proof (induction ts arbitrary: i)
  case Nil
  then show ?case by simp
next
  case (Cons t ts)
  show ?case
  proof (cases "m \<in> set (progress L P n (Suc i) ts)")
    case True
    then show ?thesis by (rule Cons.IH)
  next
    case False
    with Cons.prems have "m = Processing (i + 1) n t \<or> m = outcome_line (process_ticker L t (P t))"
      by auto
    then show ?thesis
      by (cases "process_ticker L t (P t)") auto
  qed
qed

lemma final_csv:
  "csv_file (final_analysis L con res) =
     (if res = [] then None else Some (sort_values L (dropna res)))"
  by (simp add: final_analysis_def Let_def)

lemma final_console:
  "console (final_analysis L con res) =
     con @ (if res = [] then [No_data_collected]
            else Saved ''mirsky_ratio_results.csv'' #
              (if 2 < length (sort_values L (dropna res))
               then [Statistical_results (length (sort_values L (dropna res)))
                      (fst (pearsonr L (map Mirsky_Ratio (sort_values L (dropna res)))
                         (map Market_Growth_1Y_Percent (sort_values L (dropna res)))))
                      (snd (pearsonr L (map Mirsky_Ratio (sort_values L (dropna res)))
                         (map Market_Growth_1Y_Percent (sort_values L (dropna res)))))]
               else [Insufficient_data]))"
  by (simp add: final_analysis_def Let_def case_prod_beta)

lemma loop_state:
  assumes "ticker_loop L P (length ts) 0 ts ([Starting], []) = (con, results)"
  shows "con = Starting # progress L P (length ts) 0 ts" and "results = accepted L P ts"
  using assms by (simp_all add: ticker_loop_closed)

lemma statistics_in_console:
  "(\<exists>k c p. Statistical_results k c p \<in> set (console (run_on L P ts))) \<longleftrightarrow>
     accepted L P ts \<noteq> [] \<and> 2 < length (sort_values L (dropna (accepted L P ts)))"
  by (auto simp: run_on_eq final_console dest: progress_lines)

lemma insufficient_in_console:
  "Insufficient_data \<in> set (console (run_on L P ts)) \<longleftrightarrow>
     accepted L P ts \<noteq> [] \<and> \<not> 2 < length (sort_values L (dropna (accepted L P ts)))"
  by (auto simp: run_on_eq final_console dest: progress_lines)

lemma statistics_line:
  assumes "accepted L P ts \<noteq> []" and "csv_file (run_on L P ts) = Some df" and "2 < length df"
  shows "Statistical_results (length df)
      (fst (pearsonr L (map Mirsky_Ratio df) (map Market_Growth_1Y_Percent df)))
      (snd (pearsonr L (map Mirsky_Ratio df) (map Market_Growth_1Y_Percent df)))
    \<in> set (console (run_on L P ts))"
  using assms by (auto simp: run_on_eq final_console final_csv)

lemmas sort_defs = stable_sort_values_def last_first_sort_values_def frank_def
  dropna_def has_na_def isnan_def

lemma process_ticker_nan_sga:
  assumes "2 \<le> length cs" and "\<not> required_missing f"
    and "index f ''Selling General And Administration'' = Some v"
    and "extract_scalar L v = Inr NaN"
  shows "\<exists>r. process_ticker L t \<lparr>history = Returns (Prices cs), financials = Returns f\<rparr> = OK r
    \<and> Mirsky_Ratio r = NaN \<and> SGA r = NaN"
proof -
  from assms(4) have "extract_scalar L v \<noteq> Inr (Fin 0)" by simp
  with process_ticker_sga [OF assms(1-3), of L t] obtain r where
    r: "process_ticker L t \<lparr>history = Returns (Prices cs), financials = Returns f\<rparr> = OK r"
    by blast
  from process_ticker_accepted [OF r] assms(3,4)
  have "SGA r = NaN" and "fdiv (RnD r) (SGA r) = Inr (Mirsky_Ratio r)"
    by auto
  then have "Mirsky_Ratio r = NaN" "SGA r = NaN"
    by (cases "RnD r"; simp)+
  with r show ?thesis by blast
qed

lemma csv_rows:
  assumes "sort_values_contract L" and "csv_file (run_on L P ts) = Some df"
  shows "accepted L P ts \<noteq> []" and "df = sort_values L (dropna (accepted L P ts))"
    and "set df = set (dropna (accepted L P ts))"
proof -
  from assms(2) show ne: "accepted L P ts \<noteq> []"
    by (auto simp: run_on_eq final_csv split: if_splits)
  with assms(2) show df: "df = sort_values L (dropna (accepted L P ts))"
    by (simp add: run_on_eq final_csv)
  show "set df = set (dropna (accepted L P ts))"
    unfolding df by (rule contract_set [OF assms(1)])
qed

lemma sample_SNAN: "process_ticker L ''SNAN'' (sample_provider ''SNAN'') =
   OK \<lparr>Ticker = ''SNAN'', Mirsky_Ratio = NaN, Market_Growth_1Y_Percent = PyFloat (Fin 100),
       RnD = Fin 1, SGA = NaN\<rparr>"
  by (simp add: sample_defs run_defs)

lemma sample_GRO: "process_ticker L ''GRO'' (sample_provider ''GRO'') =
   OK \<lparr>Ticker = ''GRO'', Mirsky_Ratio = Fin (1 / 2), Market_Growth_1Y_Percent = PyFloat NaN,
       RnD = Fin 1, SGA = Fin 2\<rparr>"
  by (simp add: sample_defs run_defs)

section \<open>The claims\<close>



text \<open>
  Claim C4. The growth percentage is \<open>(end - start) / start * 100\<close> when the start
  price is greater than 0 and the int 0 otherwise; it never divides by zero. A start of
  100 and an end of 120 give 20.0. The growth of an accepted record is this function of
  the extracted first and last closing price of a history of at least two rows.
\<close>

theorem market_growth_formula:
  "(fgt s (Fin 0) \<longrightarrow>
      (\<exists>q. fdiv (fsub e s) s = Inr q \<and> market_growth s e = Inr (PyFloat (fmul q (Fin 100))))) \<and>
   (0 < a \<longrightarrow> market_growth (Fin a) (Fin b) = Inr (PyFloat (Fin ((b - a) / a * 100)))) \<and>
   (\<not> fgt s (Fin 0) \<longrightarrow> market_growth s e = Inr (PyInt 0)) \<and>
   market_growth (Fin 100) (Fin 120) = Inr (PyFloat (Fin 20)) \<and>
   market_growth (Fin 0) e = Inr (PyInt 0) \<and>
   market_growth s e \<noteq> Inl ZeroDivisionError \<and>
   (process_ticker L t resp = OK r \<longrightarrow>
      (\<exists>cs s' e'. history resp = Returns (Prices cs) \<and> 2 \<le> length cs \<and>
         extract_scalar L (hd cs) = Inr s' \<and> extract_scalar L (last cs) = Inr e' \<and>
         market_growth s' e' = Inr (Market_Growth_1Y_Percent r)))"
proof -
  have pos: "fgt s (Fin 0) \<longrightarrow>
      (\<exists>q. fdiv (fsub e s) s = Inr q \<and> market_growth s e = Inr (PyFloat (fmul q (Fin 100))))"
    using fdiv_positive [of s "fsub e s"] by (auto simp: market_growth_def exn_bind_def)
  have fin: "0 < a \<longrightarrow> market_growth (Fin a) (Fin b) = Inr (PyFloat (Fin ((b - a) / a * 100)))"
    by (simp add: market_growth_def exn_bind_def fgt_def fsub_def)
  have npos: "\<not> fgt s (Fin 0) \<longrightarrow> market_growth s e = Inr (PyInt 0)"
    by (simp add: market_growth_def)
  have ex1: "market_growth (Fin 100) (Fin 120) = Inr (PyFloat (Fin 20))"
    by (simp add: market_growth_def exn_bind_def fgt_def fsub_def)
  have ex2: "market_growth (Fin 0) e = Inr (PyInt 0)"
    by (simp add: market_growth_def fgt_def)
  have nz: "market_growth s e \<noteq> Inl ZeroDivisionError"
    using market_growth_returns [of s e] by auto
  have acc: "process_ticker L t resp = OK r \<longrightarrow>
      (\<exists>cs s' e'. history resp = Returns (Prices cs) \<and> 2 \<le> length cs \<and>
         extract_scalar L (hd cs) = Inr s' \<and> extract_scalar L (last cs) = Inr e' \<and>
         market_growth s' e' = Inr (Market_Growth_1Y_Percent r))"
    using process_ticker_accepted [of L t resp r] by blast
  from pos fin npos ex1 ex2 nz acc show ?thesis by blast
qed

theorem market_growth_formula_witness:
  "fgt (Fin 100) (Fin 0) \<and> (0::real) < 100 \<and> \<not> fgt (Fin (- 3)) (Fin 0) \<and>
   fdiv (fsub (Fin 120) (Fin 100)) (Fin 100) = Inr (Fin (1 / 5)) \<and>
   market_growth (Fin 100) (Fin 120) = Inr (PyFloat (Fin 20)) \<and>
   market_growth (Fin (- 3)) (Fin 120) = Inr (PyInt 0) \<and>
   process_ticker stable_lib ''AAA'' (sample_provider ''AAA'') =
     OK \<lparr>Ticker = ''AAA'', Mirsky_Ratio = Fin (1 / 4),
         Market_Growth_1Y_Percent = PyFloat (Fin 20), RnD = Fin 50, SGA = Fin 200\<rparr>"
  using market_growth_formula [of "Fin 100" "Fin 120" 100 120 stable_lib "''AAA''"
      "sample_provider ''AAA''"]
    market_growth_formula [of "Fin (- 3)" "Fin 120" 100 120 stable_lib "''AAA''"
      "sample_provider ''AAA''"]
  by (simp add: sample_defs run_defs)



text \<open>
  Claim C5. The division of the ratio is reached only with an SG&A that is not 0.0: no
  ticker ends in a ZeroDivisionError (the division would raise exactly on the values the
  guard rejects), and the ratio of an accepted record is the extracted R&D divided by
  the extracted SG&A. R&D 50 and SG&A 200 give 0.25.
\<close>

theorem ratio_division_guarded:
  "process_ticker L t resp \<noteq> ERROR ZeroDivisionError \<and>
   (process_ticker L t resp = OK r \<longrightarrow>
      \<not> feq (SGA r) (Fin 0) \<and> fdiv (RnD r) (SGA r) = Inr (Mirsky_Ratio r) \<and>
      (\<exists>f v1 v2. financials resp = Returns f \<and>
         index f ''Research And Development'' = Some v1 \<and>
         index f ''Selling General And Administration'' = Some v2 \<and>
         extract_scalar L v1 = Inr (RnD r) \<and> extract_scalar L v2 = Inr (SGA r))) \<and>
   (feq sga (Fin 0) \<longrightarrow> fdiv rnd sga = Inl ZeroDivisionError) \<and>
   (\<not> feq sga (Fin 0) \<longrightarrow> (\<exists>q. fdiv rnd sga = Inr q)) \<and>
   (y \<noteq> 0 \<longrightarrow> fdiv (Fin x) (Fin y) = Inr (Fin (x / y))) \<and>
   fdiv (Fin 50) (Fin 200) = Inr (Fin (1 / 4))"
proof -
  have no_zde: "process_ticker L t resp \<noteq> ERROR ZeroDivisionError"
  proof
    assume "process_ticker L t resp = ERROR ZeroDivisionError"
    then have "ticker_try L t resp = Inl ZeroDivisionError \<or>
        ticker_try L t resp = Inr (ERROR ZeroDivisionError)"
      by (auto simp: process_ticker_def split: sum.splits)
    then show False
    proof
      assume "ticker_try L t resp = Inl ZeroDivisionError"
      from ticker_try_raises [OF this] show False by simp
    next
      assume "ticker_try L t resp = Inr (ERROR ZeroDivisionError)"
      then show False by (simp add: ticker_try_no_error_value)
    qed
  qed
  have acc: "process_ticker L t resp = OK r \<longrightarrow>
      \<not> feq (SGA r) (Fin 0) \<and> fdiv (RnD r) (SGA r) = Inr (Mirsky_Ratio r) \<and>
      (\<exists>f v1 v2. financials resp = Returns f \<and>
         index f ''Research And Development'' = Some v1 \<and>
         index f ''Selling General And Administration'' = Some v2 \<and>
         extract_scalar L v1 = Inr (RnD r) \<and> extract_scalar L v2 = Inr (SGA r))"
    using process_ticker_accepted [of L t resp r] by (auto simp: feq_zero)
  have z: "feq sga (Fin 0) \<longrightarrow> fdiv rnd sga = Inl ZeroDivisionError"
    by (simp add: feq_zero)
  have nz: "\<not> feq sga (Fin 0) \<longrightarrow> (\<exists>q. fdiv rnd sga = Inr q)"
    using fdiv_nonzero [of sga rnd] by (simp add: feq_zero)
  have fin: "y \<noteq> 0 \<longrightarrow> fdiv (Fin x) (Fin y) = Inr (Fin (x / y))"
    by simp
  have ex: "fdiv (Fin 50) (Fin 200) = Inr (Fin (1 / 4))"
    by simp
  from no_zde acc z nz fin ex show ?thesis by blast
qed

theorem ratio_division_guarded_witness:
  "process_ticker stable_lib ''AAA'' (sample_provider ''AAA'') =
     OK \<lparr>Ticker = ''AAA'', Mirsky_Ratio = Fin (1 / 4),
         Market_Growth_1Y_Percent = PyFloat (Fin 20), RnD = Fin 50, SGA = Fin 200\<rparr> \<and>
   \<not> feq (Fin 200) (Fin 0) \<and> fdiv (Fin 50) (Fin 200) = Inr (Fin (1 / 4)) \<and>
   feq (Fin 0) (Fin 0) \<and> fdiv (Fin 50) (Fin 0) = Inl ZeroDivisionError \<and> (200::real) \<noteq> 0"
  using ratio_division_guarded [of stable_lib "''AAA''" "sample_provider ''AAA''"
      "\<lparr>Ticker = ''AAA'', Mirsky_Ratio = Fin (1 / 4),
         Market_Growth_1Y_Percent = PyFloat (Fin 20), RnD = Fin 50, SGA = Fin 200\<rparr>"
      "Fin 0" "Fin 50" 200 50]
    ratio_division_guarded [of stable_lib "''AAA''" "sample_provider ''AAA''"
      "\<lparr>Ticker = ''AAA'', Mirsky_Ratio = Fin (1 / 4),
         Market_Growth_1Y_Percent = PyFloat (Fin 20), RnD = Fin 50, SGA = Fin 200\<rparr>"
      "Fin 200" "Fin 50" 200 50]
  by (simp add: sample_AAA feq_def)



text \<open>
  Claim C7. When no ticker is accepted, the run writes no CSV file, ends its console with
  the no-data message and prints neither the saved-file line, nor statistics, nor the
  insufficient-data notice; every ticker was still processed (one progress line and one
  outcome line each), so the run ends normally.
\<close>

theorem no_data_collected:
  assumes "\<forall>t \<in> set ts. \<forall>r. process_ticker L t (P t) \<noteq> OK r"
  shows "csv_file (run_on L P ts) = None \<and>
    last (console (run_on L P ts)) = No_data_collected \<and>
    length (console (run_on L P ts)) = 2 * length ts + 2 \<and>
    (\<forall>k c p. Statistical_results k c p \<notin> set (console (run_on L P ts))) \<and>
    (\<forall>f. Saved f \<notin> set (console (run_on L P ts))) \<and>
    Insufficient_data \<notin> set (console (run_on L P ts)) \<and>
    (\<forall>k < length ts. Processing (k + 1) (length ts) (ts ! k) \<in> set (console (run_on L P ts)))"
proof -
  from assms have none: "accepted L P ts = []"
    by (simp add: accepted_empty_iff)
  have con: "console (run_on L P ts) =
      Starting # progress L P (length ts) 0 ts @ [No_data_collected]"
    by (simp add: run_on_eq final_console none)
  have csv: "csv_file (run_on L P ts) = None"
    by (simp add: run_on_eq final_csv none)
  have proc: "\<forall>k < length ts. Processing (k + 1) (length ts) (ts ! k) \<in> set (console (run_on L P ts))"
    using progress_Processing [of _ ts 0 "length ts" L P] by (simp add: con)
  have no_report: "(\<forall>k c p. Statistical_results k c p \<notin> set (console (run_on L P ts))) \<and>
    (\<forall>f. Saved f \<notin> set (console (run_on L P ts))) \<and>
    Insufficient_data \<notin> set (console (run_on L P ts))"
    by (auto simp: con dest: progress_lines)
  from con csv proc no_report show ?thesis
    by (simp add: progress_length)
qed

theorem no_data_collected_witness:
  "process_ticker stable_lib ''ONE'' (sample_provider ''ONE'') = SKIPPED Insufficient_price_data \<and>
   process_ticker stable_lib ''ZERO'' (sample_provider ''ZERO'') = SKIPPED SGA_is_zero \<and>
   process_ticker stable_lib ''XYZ'' (sample_provider ''XYZ'') = ERROR (ProviderError ''no data'') \<and>
   run_on stable_lib sample_provider [''ONE'', ''ZERO'', ''XYZ''] =
     \<lparr>console = [Starting,
        Processing 1 3 ''ONE'', Skipped_line Insufficient_price_data,
        Processing 2 3 ''ZERO'', Skipped_line SGA_is_zero,
        Processing 3 3 ''XYZ'', Error_line (ProviderError ''no data''),
        No_data_collected],
      csv_file = None\<rparr>"
  using no_data_collected [of "[''ONE'', ''ZERO'', ''XYZ'']" stable_lib sample_provider]
  by (simp add: run_on_def final_analysis_def sample_outcomes sample_XYZ_outcome)

text \<open>
  Claim C8. An exception raised while a ticker is processed is caught at the per-ticker
  boundary and logged as that ticker's error line. The loop goes on: every ticker of the
  list is processed, the accepted records are those of the tickers before the failing one
  followed by those of the tickers after it, and the file written is the one the run
  would write without the failing ticker.
\<close>

theorem failure_isolation:
  assumes "ticker_try L x (P x) = Inl e"
  shows "process_ticker L x (P x) = ERROR e \<and>
    snd (ticker_loop L P n i (pre @ x # post) (con, res)) =
      snd (ticker_loop L P n i pre (con, res)) @ snd (ticker_loop L P n j post (con', [])) \<and>
    Error_line e \<in> set (fst (ticker_loop L P n i (pre @ x # post) (con, res))) \<and>
    (\<forall>k < length (pre @ x # post).
       Processing (i + k + 1) n ((pre @ x # post) ! k)
         \<in> set (fst (ticker_loop L P n i (pre @ x # post) (con, res)))) \<and>
    csv_file (run_on L P (pre @ x # post)) = csv_file (run_on L P (pre @ post))"
proof -
  from assms have err: "process_ticker L x (P x) = ERROR e"
    by (simp add: process_ticker_def)
  then have one: "accepted L P [x] = []"
    by (simp add: accepted_def)
  have acc: "accepted L P (pre @ x # post) = accepted L P pre @ accepted L P post"
    using accepted_append [of L P pre "[x] @ post"] accepted_append [of L P "[x]" post] one
    by simp
  have line: "Error_line e \<in> set (progress L P n i (pre @ x # post))"
    using progress_outcome [of x "pre @ x # post" L P n i] err by simp
  have proc: "\<forall>k < length (pre @ x # post).
       Processing (i + k + 1) n ((pre @ x # post) ! k) \<in> set (progress L P n i (pre @ x # post))"
    using progress_Processing by blast
  have csv: "csv_file (run_on L P (pre @ x # post)) = csv_file (run_on L P (pre @ post))"
    unfolding run_on_eq final_csv acc accepted_append [of L P pre post] by (rule refl)
  from err acc line proc csv show ?thesis
    by (simp add: ticker_loop_closed)
qed

theorem failure_isolation_witness:
  "ticker_try stable_lib ''XYZ'' (sample_provider ''XYZ'') = Inl (ProviderError ''no data'') \<and>
   snd (ticker_loop stable_lib sample_provider 3 0 [''AAA'', ''XYZ'', ''CCC''] ([Starting], [])) =
     [\<lparr>Ticker = ''AAA'', Mirsky_Ratio = Fin (1 / 4), Market_Growth_1Y_Percent = PyFloat (Fin 20),
        RnD = Fin 50, SGA = Fin 200\<rparr>,
      \<lparr>Ticker = ''CCC'', Mirsky_Ratio = Fin (1 / 2), Market_Growth_1Y_Percent = PyInt 0,
        RnD = Fin 1, SGA = Fin 2\<rparr>] \<and>
   fst (ticker_loop stable_lib sample_provider 3 0 [''AAA'', ''XYZ'', ''CCC''] ([Starting], [])) =
     [Starting, Processing 1 3 ''AAA'', Ok_line,
      Processing 2 3 ''XYZ'', Error_line (ProviderError ''no data''),
      Processing 3 3 ''CCC'', Ok_line]"
  using failure_isolation [of stable_lib "''XYZ''" sample_provider "ProviderError ''no data''"
      3 0 "[''AAA'']" "[''CCC'']" "[Starting]" "[]" 2 "[]"]
  by (simp add: sample_outcomes sample_XYZ sample_XYZ_outcome)

text \<open>
  Claim C6, as amended. Statistics are computed and printed (with the sample size) if
  and only if more than two records are left after the missing-value filter. When at
  least one record was accepted and at most two are left, the insufficient-data notice is
  printed and the CSV file has been written with the records left. When no record was
  accepted, neither happens: no file is written and the notice is not printed, so the
  claim as stated, for every run, fails there.

  The sort is the library's; what is used of it is that it returns the rows it is given,
  in some order, sorted.
\<close>

theorem statistics_threshold:
  assumes "sort_values_contract L"
    and "ticker_loop L P (length ts) 0 ts ([Starting], []) = (con, results)"
  shows "((\<exists>k c p. Statistical_results k c p \<in> set (console (run_on L P ts))) \<longleftrightarrow>
      2 < length (dropna results)) \<and>
    (2 < length (dropna results) \<longrightarrow>
      (\<exists>df. csv_file (run_on L P ts) = Some df \<and> length df = length (dropna results) \<and>
         Statistical_results (length df)
           (fst (pearsonr L (map Mirsky_Ratio df) (map Market_Growth_1Y_Percent df)))
           (snd (pearsonr L (map Mirsky_Ratio df) (map Market_Growth_1Y_Percent df)))
         \<in> set (console (run_on L P ts)))) \<and>
    (results \<noteq> [] \<and> length (dropna results) \<le> 2 \<longrightarrow>
      Insufficient_data \<in> set (console (run_on L P ts)) \<and>
      (\<exists>df. csv_file (run_on L P ts) = Some df \<and> mset df = mset (dropna results))) \<and>
    (results = [] \<longrightarrow>
      csv_file (run_on L P ts) = None \<and> Insufficient_data \<notin> set (console (run_on L P ts)))"
proof -
  note res = loop_state(2) [OF assms(2)]
  note len = contract_length [OF assms(1), of results]
  have nonempty: "2 < length (dropna results) \<Longrightarrow> results \<noteq> []"
    by (auto simp: dropna_def)
  have a: "(\<exists>k c p. Statistical_results k c p \<in> set (console (run_on L P ts))) \<longleftrightarrow>
      2 < length (dropna results)"
    using nonempty by (auto simp: statistics_in_console res [symmetric] len)
  have b: "2 < length (dropna results) \<longrightarrow>
      (\<exists>df. csv_file (run_on L P ts) = Some df \<and> length df = length (dropna results) \<and>
         Statistical_results (length df)
           (fst (pearsonr L (map Mirsky_Ratio df) (map Market_Growth_1Y_Percent df)))
           (snd (pearsonr L (map Mirsky_Ratio df) (map Market_Growth_1Y_Percent df)))
         \<in> set (console (run_on L P ts)))"
  proof
    assume big: "2 < length (dropna results)"
    with nonempty have ne: "accepted L P ts \<noteq> []" by (simp add: res)
    then have csv: "csv_file (run_on L P ts) = Some (sort_values L (dropna results))"
      by (simp add: run_on_eq final_csv res)
    from statistics_line [OF ne csv] big len csv
    show "\<exists>df. csv_file (run_on L P ts) = Some df \<and> length df = length (dropna results) \<and>
         Statistical_results (length df)
           (fst (pearsonr L (map Mirsky_Ratio df) (map Market_Growth_1Y_Percent df)))
           (snd (pearsonr L (map Mirsky_Ratio df) (map Market_Growth_1Y_Percent df)))
         \<in> set (console (run_on L P ts))"
      by simp
  qed
  have c: "results \<noteq> [] \<and> length (dropna results) \<le> 2 \<longrightarrow>
      Insufficient_data \<in> set (console (run_on L P ts)) \<and>
      (\<exists>df. csv_file (run_on L P ts) = Some df \<and> mset df = mset (dropna results))"
  proof (intro impI, elim conjE)
    assume ne: "results \<noteq> []" and small: "length (dropna results) \<le> 2"
    from ne small have notice: "Insufficient_data \<in> set (console (run_on L P ts))"
      by (simp add: insufficient_in_console res [symmetric] len)
    from ne have "csv_file (run_on L P ts) = Some (sort_values L (dropna results))"
      by (simp add: run_on_eq final_csv res [symmetric])
    with contract_mset [OF assms(1), of results] notice
    show "Insufficient_data \<in> set (console (run_on L P ts)) \<and>
      (\<exists>df. csv_file (run_on L P ts) = Some df \<and> mset df = mset (dropna results))"
      by simp
  qed
  have d: "results = [] \<longrightarrow>
      csv_file (run_on L P ts) = None \<and> Insufficient_data \<notin> set (console (run_on L P ts))"
  proof
    assume e: "results = []"
    then have "Insufficient_data \<notin> set (console (run_on L P ts))"
      by (simp add: insufficient_in_console res [symmetric])
    moreover from e have "csv_file (run_on L P ts) = None"
      by (simp add: run_on_eq final_csv res [symmetric])
    ultimately show "csv_file (run_on L P ts) = None \<and>
        Insufficient_data \<notin> set (console (run_on L P ts))"
      by simp
  qed
  from a b c d show ?thesis by blast
qed

theorem statistics_threshold_witness:
  "sort_values_contract stable_lib \<and>
   run_on stable_lib sample_provider [''AAA'', ''NAN'', ''CCC''] =
     \<lparr>console = [Starting, Processing 1 3 ''AAA'', Ok_line, Processing 2 3 ''NAN'', Ok_line,
        Processing 3 3 ''CCC'', Ok_line, Saved ''mirsky_ratio_results.csv'', Insufficient_data],
      csv_file = Some
        [\<lparr>Ticker = ''CCC'', Mirsky_Ratio = Fin (1 / 2), Market_Growth_1Y_Percent = PyInt 0,
           RnD = Fin 1, SGA = Fin 2\<rparr>,
         \<lparr>Ticker = ''AAA'', Mirsky_Ratio = Fin (1 / 4), Market_Growth_1Y_Percent = PyFloat (Fin 20),
           RnD = Fin 50, SGA = Fin 200\<rparr>]\<rparr> \<and>
   run_on stable_lib sample_provider [''DDD'', ''CCC'', ''EEE''] =
     \<lparr>console = [Starting, Processing 1 3 ''DDD'', Ok_line, Processing 2 3 ''CCC'', Ok_line,
        Processing 3 3 ''EEE'', Ok_line, Saved ''mirsky_ratio_results.csv'',
        Statistical_results 3 (Fin 0) (Fin 1)],
      csv_file = Some
        [\<lparr>Ticker = ''CCC'', Mirsky_Ratio = Fin (1 / 2), Market_Growth_1Y_Percent = PyInt 0,
           RnD = Fin 1, SGA = Fin 2\<rparr>,
         \<lparr>Ticker = ''EEE'', Mirsky_Ratio = Fin (3 / 10),
           Market_Growth_1Y_Percent = PyFloat (Fin (- 25)), RnD = Fin 3, SGA = Fin 10\<rparr>,
         \<lparr>Ticker = ''DDD'', Mirsky_Ratio = Fin (1 / 10),
           Market_Growth_1Y_Percent = PyFloat (Fin 25), RnD = Fin 1, SGA = Fin 10\<rparr>]\<rparr> \<and>
   snd (ticker_loop stable_lib sample_provider 2 0 [''ONE'', ''XYZ''] ([Starting], [])) = [] \<and>
   csv_file (run_on stable_lib sample_provider [''ONE'', ''XYZ'']) = None"
proof -
  have small: "ticker_loop stable_lib sample_provider (length [''AAA'', ''NAN'', ''CCC'']) 0
      [''AAA'', ''NAN'', ''CCC''] ([Starting], []) =
    ([Starting, Processing 1 3 ''AAA'', Ok_line, Processing 2 3 ''NAN'', Ok_line,
        Processing 3 3 ''CCC'', Ok_line],
     [\<lparr>Ticker = ''AAA'', Mirsky_Ratio = Fin (1 / 4), Market_Growth_1Y_Percent = PyFloat (Fin 20),
         RnD = Fin 50, SGA = Fin 200\<rparr>,
      \<lparr>Ticker = ''NAN'', Mirsky_Ratio = NaN, Market_Growth_1Y_Percent = PyFloat (Fin 100),
         RnD = NaN, SGA = Fin 3\<rparr>,
      \<lparr>Ticker = ''CCC'', Mirsky_Ratio = Fin (1 / 2), Market_Growth_1Y_Percent = PyInt 0,
         RnD = Fin 1, SGA = Fin 2\<rparr>])"
    by (simp add: sample_outcomes)
  have big: "ticker_loop stable_lib sample_provider (length [''DDD'', ''CCC'', ''EEE'']) 0
      [''DDD'', ''CCC'', ''EEE''] ([Starting], []) =
    ([Starting, Processing 1 3 ''DDD'', Ok_line, Processing 2 3 ''CCC'', Ok_line,
        Processing 3 3 ''EEE'', Ok_line],
     [\<lparr>Ticker = ''DDD'', Mirsky_Ratio = Fin (1 / 10),
         Market_Growth_1Y_Percent = PyFloat (Fin 25), RnD = Fin 1, SGA = Fin 10\<rparr>,
      \<lparr>Ticker = ''CCC'', Mirsky_Ratio = Fin (1 / 2), Market_Growth_1Y_Percent = PyInt 0,
         RnD = Fin 1, SGA = Fin 2\<rparr>,
      \<lparr>Ticker = ''EEE'', Mirsky_Ratio = Fin (3 / 10),
         Market_Growth_1Y_Percent = PyFloat (Fin (- 25)), RnD = Fin 3, SGA = Fin 10\<rparr>])"
    by (simp add: sample_outcomes)
  have none: "ticker_loop stable_lib sample_provider (length [''ONE'', ''XYZ'']) 0
      [''ONE'', ''XYZ''] ([Starting], []) =
    ([Starting, Processing 1 2 ''ONE'', Skipped_line Insufficient_price_data,
        Processing 2 2 ''XYZ'', Error_line (ProviderError ''no data'')], [])"
    by (simp add: sample_outcomes sample_XYZ_outcome)
  show ?thesis
    using statistics_threshold [OF stable_lib_contract small]
      statistics_threshold [OF stable_lib_contract big]
      statistics_threshold [OF stable_lib_contract none] stable_lib_contract
    by (simp add: run_on_def final_analysis_def sample_outcomes sample_XYZ_outcome sort_defs
        stable_lib_def sample_pearsonr_def)
qed

theorem statistics_threshold_counterexample:
  "length (dropna (snd (ticker_loop stable_lib sample_provider 2 0 [''ONE'', ''XYZ'']
      ([Starting], [])))) \<le> 2 \<and>
   run_on stable_lib sample_provider [''ONE'', ''XYZ''] =
     \<lparr>console = [Starting, Processing 1 2 ''ONE'', Skipped_line Insufficient_price_data,
        Processing 2 2 ''XYZ'', Error_line (ProviderError ''no data''), No_data_collected],
      csv_file = None\<rparr>"
  by (simp add: run_on_def final_analysis_def sample_outcomes sample_XYZ_outcome dropna_def)

text \<open>
  Claim C9. Extraction of a float NaN gives NaN, and NaN is not equal to 0.0, so a ticker
  whose SG&A extracts to NaN is accepted with a NaN ratio (the witness shows accepted
  records with a NaN R&D, a NaN SG&A and a NaN growth). The missing-value filter removes
  every such row: no row of the written file has a missing value in any field, and the
  two columns given to the correlation are free of NaN.
\<close>

theorem missing_values_dropped:
  "extract_scalar L (Scalar (SFloat NaN)) = Inr NaN \<and> \<not> feq NaN (Fin 0) \<and>
   (2 \<le> length cs \<and> \<not> required_missing f \<and>
    index f ''Selling General And Administration'' = Some v \<and> extract_scalar L v = Inr NaN \<longrightarrow>
      (\<exists>r. process_ticker L t \<lparr>history = Returns (Prices cs), financials = Returns f\<rparr> = OK r
         \<and> isnan (Mirsky_Ratio r) \<and> has_na r)) \<and>
   (has_na r \<longrightarrow> r \<notin> set (dropna rs)) \<and>
   (sort_values_contract L \<and> csv_file (run_on L P ts) = Some df \<longrightarrow>
      (\<forall>r \<in> set df. \<not> has_na r) \<and>
      (\<forall>x \<in> set (map Mirsky_Ratio df). \<not> isnan x) \<and>
      (\<forall>g \<in> set (map Market_Growth_1Y_Percent df). \<not> number_isna g) \<and>
      (2 < length df \<longrightarrow>
         Statistical_results (length df)
           (fst (pearsonr L (map Mirsky_Ratio df) (map Market_Growth_1Y_Percent df)))
           (snd (pearsonr L (map Mirsky_Ratio df) (map Market_Growth_1Y_Percent df)))
         \<in> set (console (run_on L P ts))))"
proof -
  have a: "extract_scalar L (Scalar (SFloat NaN)) = Inr NaN \<and> \<not> feq NaN (Fin 0)"
    by (simp add: extract_scalar_float feq_def)
  have b: "2 \<le> length cs \<and> \<not> required_missing f \<and>
    index f ''Selling General And Administration'' = Some v \<and> extract_scalar L v = Inr NaN \<longrightarrow>
      (\<exists>r. process_ticker L t \<lparr>history = Returns (Prices cs), financials = Returns f\<rparr> = OK r
         \<and> isnan (Mirsky_Ratio r) \<and> has_na r)"
    using process_ticker_nan_sga [of cs f v L t] by (auto simp: isnan_def has_na_def)
  have c: "has_na r \<longrightarrow> r \<notin> set (dropna rs)"
    by (simp add: dropna_def)
  have d: "sort_values_contract L \<and> csv_file (run_on L P ts) = Some df \<longrightarrow>
      (\<forall>r \<in> set df. \<not> has_na r) \<and>
      (\<forall>x \<in> set (map Mirsky_Ratio df). \<not> isnan x) \<and>
      (\<forall>g \<in> set (map Market_Growth_1Y_Percent df). \<not> number_isna g) \<and>
      (2 < length df \<longrightarrow>
         Statistical_results (length df)
           (fst (pearsonr L (map Mirsky_Ratio df) (map Market_Growth_1Y_Percent df)))
           (snd (pearsonr L (map Mirsky_Ratio df) (map Market_Growth_1Y_Percent df)))
         \<in> set (console (run_on L P ts)))"
  proof (intro impI, elim conjE)
    assume contract: "sort_values_contract L" and csv: "csv_file (run_on L P ts) = Some df"
    note rows = csv_rows [OF contract csv]
    have clean: "\<forall>r \<in> set df. \<not> has_na r"
      by (simp add: rows(3) dropna_def)
    then have cols: "(\<forall>x \<in> set (map Mirsky_Ratio df). \<not> isnan x) \<and>
      (\<forall>g \<in> set (map Market_Growth_1Y_Percent df). \<not> number_isna g)"
      by (auto simp: has_na_def)
    from statistics_line [OF rows(1) csv] clean cols
    show "(\<forall>r \<in> set df. \<not> has_na r) \<and>
      (\<forall>x \<in> set (map Mirsky_Ratio df). \<not> isnan x) \<and>
      (\<forall>g \<in> set (map Market_Growth_1Y_Percent df). \<not> number_isna g) \<and>
      (2 < length df \<longrightarrow>
         Statistical_results (length df)
           (fst (pearsonr L (map Mirsky_Ratio df) (map Market_Growth_1Y_Percent df)))
           (snd (pearsonr L (map Mirsky_Ratio df) (map Market_Growth_1Y_Percent df)))
         \<in> set (console (run_on L P ts)))"
      by blast
  qed
  from a b c d show ?thesis by blast
qed

theorem missing_values_dropped_witness:
  "extract_scalar stable_lib (Series [SFloat NaN]) = Inr NaN \<and>
   process_ticker stable_lib ''NAN'' (sample_provider ''NAN'') =
     OK \<lparr>Ticker = ''NAN'', Mirsky_Ratio = NaN, Market_Growth_1Y_Percent = PyFloat (Fin 100),
         RnD = NaN, SGA = Fin 3\<rparr> \<and>
   process_ticker stable_lib ''SNAN'' (sample_provider ''SNAN'') =
     OK \<lparr>Ticker = ''SNAN'', Mirsky_Ratio = NaN, Market_Growth_1Y_Percent = PyFloat (Fin 100),
         RnD = Fin 1, SGA = NaN\<rparr> \<and>
   process_ticker stable_lib ''GRO'' (sample_provider ''GRO'') =
     OK \<lparr>Ticker = ''GRO'', Mirsky_Ratio = Fin (1 / 2), Market_Growth_1Y_Percent = PyFloat NaN,
         RnD = Fin 1, SGA = Fin 2\<rparr> \<and>
   has_na \<lparr>Ticker = ''GRO'', Mirsky_Ratio = Fin (1 / 2), Market_Growth_1Y_Percent = PyFloat NaN,
         RnD = Fin 1, SGA = Fin 2\<rparr> \<and>
   sort_values_contract stable_lib \<and>
   csv_file (run_on stable_lib sample_provider [''AAA'', ''NAN'', ''SNAN'', ''GRO'', ''CCC'']) =
     Some
       [\<lparr>Ticker = ''CCC'', Mirsky_Ratio = Fin (1 / 2), Market_Growth_1Y_Percent = PyInt 0,
          RnD = Fin 1, SGA = Fin 2\<rparr>,
        \<lparr>Ticker = ''AAA'', Mirsky_Ratio = Fin (1 / 4), Market_Growth_1Y_Percent = PyFloat (Fin 20),
          RnD = Fin 50, SGA = Fin 200\<rparr>]"
  using missing_values_dropped [of stable_lib
      "[Scalar (SFloat (Fin 1)), Scalar (SFloat (Fin 2))]"
      "statement (figure 1) (Series [SFloat NaN])" "Series [SFloat NaN]" "''SNAN''"
      "\<lparr>Ticker = ''GRO'', Mirsky_Ratio = Fin (1 / 2), Market_Growth_1Y_Percent = PyFloat NaN,
         RnD = Fin 1, SGA = Fin 2\<rparr>"
      "[\<lparr>Ticker = ''GRO'', Mirsky_Ratio = Fin (1 / 2), Market_Growth_1Y_Percent = PyFloat NaN,
         RnD = Fin 1, SGA = Fin 2\<rparr>]"
      sample_provider "[''AAA'', ''NAN'', ''SNAN'', ''GRO'', ''CCC'']"
      "[\<lparr>Ticker = ''CCC'', Mirsky_Ratio = Fin (1 / 2), Market_Growth_1Y_Percent = PyInt 0,
          RnD = Fin 1, SGA = Fin 2\<rparr>,
        \<lparr>Ticker = ''AAA'', Mirsky_Ratio = Fin (1 / 4), Market_Growth_1Y_Percent = PyFloat (Fin 20),
          RnD = Fin 50, SGA = Fin 200\<rparr>]"]
    stable_lib_contract
  by (simp add: run_on_def final_analysis_def sample_outcomes sample_SNAN sample_GRO sort_defs
      stable_lib_def sample_pearsonr_def extract_scalar_cons extract_scalar_float)




end
